theory Spec2Isabelle
  imports Complex_Main "HOL-Library.Log_Nat"
begin

section \<open>Python floats\<close>

text \<open>
  A Python float is an IEEE 754 double: a finite value, an infinity or a NaN. A finite
  double is kept as the real number it denotes; the sign of zero is not kept, since no
  operation used here tells the two zeros apart.
\<close>

datatype pyfloat = Finite real | PosInf | NegInf | NaN

text \<open>The nearest integer, a tie going to the even one.\<close>

definition round_half_even :: "real \<Rightarrow> int" where
  "round_half_even y =
     (let f = \<lfloor>y\<rfloor>; d = y - of_int f
      in if d < 1 / 2 then f else if 1 / 2 < d then f + 1 else if even f then f else f + 1)"

text \<open>
  The format: the smallest positive double is \<open>2\<close> to the power \<open>- denorm_exp\<close>, a
  significand has \<open>mantissa_bits\<close> bits, and every finite double is below \<open>2\<close> to the
  power \<open>max_exp\<close>.
\<close>

definition denorm_exp :: nat where
  "denorm_exp = 1074"

definition mantissa_bits :: int where
  "mantissa_bits = 53"

definition max_exp :: nat where
  "max_exp = 1024"

text \<open>
  Rounding a real to the nearest double, ties to even, as every arithmetic operation on
  floats does with its exact result. \<open>s\<close> is the magnitude in units of the smallest
  double and \<open>k\<close> the number of low bits that do not fit the significand; a result that
  reaches \<open>2 ^ max_exp\<close> is an infinity.
\<close>

definition round_double :: "real \<Rightarrow> pyfloat" where
  "round_double x =
     (let s = \<bar>x\<bar> * 2 ^ denorm_exp;
          k = nat (bitlen \<lfloor>s\<rfloor> - mantissa_bits);
          r = of_int (round_half_even (s / 2 ^ k)) * 2 ^ k / 2 ^ denorm_exp
      in if 2 ^ max_exp \<le> r then (if 0 < x then PosInf else NegInf)
         else Finite (if 0 \<le> x then r else - r))"

text \<open>\<^verbatim>\<open>a + b\<close>, \<^verbatim>\<open>a - b\<close> and \<^verbatim>\<open>a < b\<close> on floats.\<close>

fun float_plus :: "pyfloat \<Rightarrow> pyfloat \<Rightarrow> pyfloat" where
  "float_plus (Finite a) (Finite b) = round_double (a + b)"
| "float_plus NaN b = NaN"
| "float_plus a NaN = NaN"
| "float_plus PosInf NegInf = NaN"
| "float_plus NegInf PosInf = NaN"
| "float_plus PosInf b = PosInf"
| "float_plus a PosInf = PosInf"
| "float_plus NegInf b = NegInf"
| "float_plus a NegInf = NegInf"

fun float_minus :: "pyfloat \<Rightarrow> pyfloat \<Rightarrow> pyfloat" where
  "float_minus (Finite a) (Finite b) = round_double (a - b)"
| "float_minus NaN b = NaN"
| "float_minus a NaN = NaN"
| "float_minus PosInf PosInf = NaN"
| "float_minus NegInf NegInf = NaN"
| "float_minus PosInf b = PosInf"
| "float_minus a NegInf = PosInf"
| "float_minus NegInf b = NegInf"
| "float_minus a PosInf = NegInf"

fun float_less :: "pyfloat \<Rightarrow> pyfloat \<Rightarrow> bool" where
  "float_less (Finite a) (Finite b) = (a < b)"
| "float_less NaN b = False"
| "float_less a NaN = False"
| "float_less PosInf b = False"
| "float_less a NegInf = False"
| "float_less a PosInf = True"
| "float_less NegInf b = True"

section \<open>Python values, faults and the token endpoint\<close>

text \<open>
  The values that \<^verbatim>\<open>response.json()\<close> and the request payload can hold: the Python
  image of a JSON document. A JSON number without fraction or exponent is an \<^verbatim>\<open>int\<close> of
  any size, any other number a float (\<^verbatim>\<open>Infinity\<close> and \<^verbatim>\<open>NaN\<close> are accepted too). A
  dict is kept as the list of its items; lookup is \<open>map_of\<close>.
\<close>

datatype pyval =
    PyNone
  | PyBool bool
  | PyInt int
  | PyFloat pyfloat
  | PyStr string
  | PyList "pyval list"
  | PyDict "(string \<times> pyval) list"

text \<open>Truth value of a Python object, as \<^verbatim>\<open>if x\<close> and \<^verbatim>\<open>x and y\<close> test it.\<close>

fun truthy :: "pyval \<Rightarrow> bool" where
  "truthy PyNone = False"
| "truthy (PyBool b) = b"
| "truthy (PyInt i) = (i \<noteq> 0)"
| "truthy (PyFloat f) = (f \<noteq> Finite 0)"
| "truthy (PyStr s) = (s \<noteq> [])"
| "truthy (PyList xs) = (xs \<noteq> [])"
| "truthy (PyDict kvs) = (kvs \<noteq> [])"

text \<open>
  A fault raised by a call into a library outside the repository (the HTTP client, the
  memory service, the model): an instance of \<^verbatim>\<open>Exception\<close>, known by its class name
  and by \<^verbatim>\<open>str(e)\<close>.
\<close>

datatype fault = Fault (fault_class: string) (fault_str: string)

text \<open>
  What \<^verbatim>\<open>client.py\<close> can raise: the interpreter's own errors, the
  \<^verbatim>\<open>RuntimeError\<close> of line 58, and library faults passing through uncaught.
\<close>

datatype exn =
    KeyError string
  | TypeError
  | AttributeError
  | OverflowError
  | RuntimeError string
  | Raised fault

fun exn_class :: "exn \<Rightarrow> string" where
  "exn_class (KeyError k) = ''KeyError''"
| "exn_class TypeError = ''TypeError''"
| "exn_class AttributeError = ''AttributeError''"
| "exn_class OverflowError = ''OverflowError''"
| "exn_class (RuntimeError m) = ''RuntimeError''"
| "exn_class (Raised f) = fault_class f"

text \<open>
  The object \<^verbatim>\<open>requests.post\<close> returns. \<open>status_code\<close> is what the endpoint
  answered; \<open>response_json\<close> is the outcome of \<^verbatim>\<open>response.json()\<close>, a fault when the
  body is not JSON.
\<close>

record response =
  status_code :: nat
  response_json :: "fault + pyval"

text \<open>\<^verbatim>\<open>d[k]\<close> with a string key: only a dict that holds the key answers.\<close>

fun subscript :: "pyval \<Rightarrow> string \<Rightarrow> exn + pyval" where
  "subscript (PyDict kvs) k =
     (case map_of kvs k of None \<Rightarrow> Inl (KeyError k) | Some v \<Rightarrow> Inr v)"
| "subscript PyNone k = Inl TypeError"
| "subscript (PyBool b) k = Inl TypeError"
| "subscript (PyInt i) k = Inl TypeError"
| "subscript (PyFloat f) k = Inl TypeError"
| "subscript (PyStr s) k = Inl TypeError"
| "subscript (PyList xs) k = Inl TypeError"

text \<open>\<^verbatim>\<open>d.get(k, default)\<close>; no other value has the method.\<close>

fun dict_get :: "pyval \<Rightarrow> string \<Rightarrow> pyval \<Rightarrow> exn + pyval" where
  "dict_get (PyDict kvs) k d =
     (case map_of kvs k of None \<Rightarrow> Inr d | Some v \<Rightarrow> Inr v)"
| "dict_get PyNone k d = Inl AttributeError"
| "dict_get (PyBool b) k d = Inl AttributeError"
| "dict_get (PyInt i) k d = Inl AttributeError"
| "dict_get (PyFloat f) k d = Inl AttributeError"
| "dict_get (PyStr s) k d = Inl AttributeError"
| "dict_get (PyList xs) k d = Inl AttributeError"

text \<open>
  The conversion of an \<^verbatim>\<open>int\<close> to a float, rounded to the nearest double; an
  \<^verbatim>\<open>int\<close> too large for a double raises \<^verbatim>\<open>OverflowError\<close>.
\<close>

definition int_to_float :: "int \<Rightarrow> exn + pyfloat" where
  "int_to_float i =
     (case round_double (of_int i) of
        Finite r \<Rightarrow> Inr (Finite r)
      | PosInf \<Rightarrow> Inl OverflowError
      | NegInf \<Rightarrow> Inl OverflowError
      | NaN \<Rightarrow> Inl OverflowError)"

text \<open>
  \<^verbatim>\<open>current_time + expires_in\<close> with the float \<open>t\<close> on the left: an \<^verbatim>\<open>int\<close> is converted
  first, a bool counts as 0 or 1, a float is added as it is, and the sum is rounded;
  anything else is a \<^verbatim>\<open>TypeError\<close>.
\<close>

fun float_add :: "real \<Rightarrow> pyval \<Rightarrow> exn + pyfloat" where
  "float_add t (PyInt i) =
     (case int_to_float i of Inl e \<Rightarrow> Inl e | Inr f \<Rightarrow> Inr (float_plus (Finite t) f))"
| "float_add t (PyFloat f) = Inr (float_plus (Finite t) f)"
| "float_add t (PyBool b) = Inr (float_plus (Finite t) (Finite (if b then 1 else 0)))"
| "float_add t PyNone = Inl TypeError"
| "float_add t (PyStr s) = Inl TypeError"
| "float_add t (PyList xs) = Inl TypeError"
| "float_add t (PyDict kvs) = Inl TypeError"

section \<open>The token cache (\<^verbatim>\<open>mcp_client/client.py\<close>)\<close>

text \<open>
  \<^verbatim>\<open>_token_cache\<close> is a module-level dict with the two keys below. The world also
  counts the \<^verbatim>\<open>requests.post\<close> calls issued so far; the token endpoint is a
  function \<open>post\<close> giving the outcome of the \<open>i\<close>-th call: a raised fault or a response.
  The time of a call is the finite float \<^verbatim>\<open>time.time()\<close> returned, given as the real
  it denotes.
\<close>

record token_cache =
  token :: pyval
  expires_at :: pyfloat

record world =
  cache :: token_cache
  calls :: nat

definition initial_cache :: token_cache where
  "initial_cache = \<lparr>token = PyNone, expires_at = Finite 0\<rparr>"

definition initial_world :: world where
  "initial_world = \<lparr>cache = initial_cache, calls = 0\<rparr>"

text \<open>
  The test of lines 26-27: the difference is rounded as a float before the times are
  compared.
\<close>

definition cache_valid :: "token_cache \<Rightarrow> real \<Rightarrow> bool" where
  "cache_valid c current_time \<longleftrightarrow>
     truthy (token c)
     \<and> float_less (Finite current_time) (float_minus (expires_at c) (Finite 300))"

text \<open>
  \<^verbatim>\<open>_get_access_token\<close>, lines 18-49, called at time \<open>current_time\<close>. Line 46 writes
  the token before line 47 computes the expiry, so a fault in the addition leaves the
  new token beside the old expiry.
\<close>

definition get_access_token ::
  "(nat \<Rightarrow> fault + response) \<Rightarrow> real \<Rightarrow> world \<Rightarrow> (exn + pyval) \<times> world" where
  "get_access_token post current_time w =
     (if cache_valid (cache w) current_time then (Inr (token (cache w)), w)
      else
        let w1 = w\<lparr>calls := Suc (calls w)\<rparr> in
        case post (calls w) of
          Inl f \<Rightarrow> (Inl (Raised f), w1)
        | Inr resp \<Rightarrow>
           (case response_json resp of
              Inl f \<Rightarrow> (Inl (Raised f), w1)
            | Inr token_data \<Rightarrow>
               (case subscript token_data ''access_token'' of
                  Inl e \<Rightarrow> (Inl e, w1)
                | Inr access_token \<Rightarrow>
                   (case dict_get token_data ''expires_in'' (PyInt 3600) of
                      Inl e \<Rightarrow> (Inl e, w1)
                    | Inr expires_in \<Rightarrow>
                       let w2 = w1\<lparr>cache := (cache w1)\<lparr>token := access_token\<rparr>\<rparr> in
                       (case float_add current_time expires_in of
                          Inl e \<Rightarrow> (Inl e, w2)
                        | Inr t \<Rightarrow>
                           (Inr access_token,
                            w2\<lparr>cache := (cache w2)\<lparr>expires_at := t\<rparr>\<rparr>))))))"

text \<open>
  Consecutive calls at the given times, each on the world the previous one left;
  the results in call order.
\<close>

fun get_access_tokens ::
  "(nat \<Rightarrow> fault + response) \<Rightarrow> real list \<Rightarrow> world \<Rightarrow> (exn + pyval) list \<times> world" where
  "get_access_tokens post [] w = ([], w)"
| "get_access_tokens post (t # ts) w =
     (let (r, w') = get_access_token post t w;
          (rs, w'') = get_access_tokens post ts w'
      in (r # rs, w''))"

text \<open>A well-formed answer of the endpoint: status 200 and a JSON object.\<close>

definition token_response :: "(string \<times> pyval) list \<Rightarrow> fault + response" where
  "token_response kvs = Inr \<lparr>status_code = 200, response_json = Inr (PyDict kvs)\<rparr>"

section \<open>The gateway client (\<^verbatim>\<open>mcp_client/client.py\<close>, \<^verbatim>\<open>main.py\<close> lines 13-20)\<close>

text \<open>
  An f-string field \<^verbatim>\<open>{v}\<close>: a string is inserted as it is; the text of any other
  value is the interpreter's, taken as the parameter \<open>str_of\<close>.
\<close>

fun format_value :: "(pyval \<Rightarrow> string) \<Rightarrow> pyval \<Rightarrow> string" where
  "format_value str_of (PyStr s) = s"
| "format_value str_of PyNone = str_of PyNone"
| "format_value str_of (PyBool b) = str_of (PyBool b)"
| "format_value str_of (PyInt i) = str_of (PyInt i)"
| "format_value str_of (PyFloat f) = str_of (PyFloat f)"
| "format_value str_of (PyList xs) = str_of (PyList xs)"
| "format_value str_of (PyDict kvs) = str_of (PyDict kvs)"

text \<open>What \<^verbatim>\<open>streamablehttp_client(url, headers=...)\<close> is asked to open.\<close>

record transport =
  url :: string
  headers :: "(string \<times> string) list"

definition streamablehttp_client :: "string \<Rightarrow> (string \<times> string) list \<Rightarrow> transport" where
  "streamablehttp_client gateway_url hs = \<lparr>url = gateway_url, headers = hs\<rparr>"

text \<open>
  \<^verbatim>\<open>MCPClient\<close> wraps a parameterless callable that opens the transport. The callable
  runs later, in whatever world then holds, so it is a function of that world.
\<close>

datatype mcp_client = MCPClient "world \<Rightarrow> transport"

fun open_transport :: "mcp_client \<Rightarrow> world \<Rightarrow> transport" where
  "open_transport (MCPClient factory) w = factory w"

definition missing_gateway_url :: exn where
  "missing_gateway_url = RuntimeError ''Missing required environment variable: GATEWAY_URL''"

text \<open>
  \<^verbatim>\<open>get_streamable_http_mcp_client\<close>, lines 52-60. \<^verbatim>\<open>os.getenv\<close> reads \<open>environ\<close>;
  \<^verbatim>\<open>not gateway_url\<close> holds for an unset and for an empty variable. The lambda of
  line 60 closes over the local \<^verbatim>\<open>access_token\<close>.
\<close>

definition get_streamable_http_mcp_client ::
  "(pyval \<Rightarrow> string) \<Rightarrow> (string \<rightharpoonup> string) \<Rightarrow> (nat \<Rightarrow> fault + response) \<Rightarrow> real \<Rightarrow> world
     \<Rightarrow> (exn + mcp_client) \<times> world" where
  "get_streamable_http_mcp_client str_of environ post now w =
     (case environ ''GATEWAY_URL'' of
        None \<Rightarrow> (Inl missing_gateway_url, w)
      | Some gateway_url \<Rightarrow>
          if gateway_url = [] then (Inl missing_gateway_url, w)
          else
            (case get_access_token post now w of
               (Inl e, w') \<Rightarrow> (Inl e, w')
             | (Inr access_token, w') \<Rightarrow>
                 (Inr (MCPClient (\<lambda>later. streamablehttp_client gateway_url
                         [(''Authorization'', ''Bearer '' @ format_value str_of access_token)])),
                  w')))"

text \<open>
  The module-level \<^verbatim>\<open>strands_mcp_client\<close> of \<^verbatim>\<open>main.py\<close>, lines 13-20: a dummy whose
  \<^verbatim>\<open>list_tools_sync\<close> answers the empty list when \<^verbatim>\<open>LOCAL_DEV\<close> is \<^verbatim>\<open>"1"\<close>, the
  gateway client otherwise.
\<close>

datatype strands_client = LocalDummy | Gateway mcp_client

definition strands_mcp_client ::
  "(pyval \<Rightarrow> string) \<Rightarrow> (string \<rightharpoonup> string) \<Rightarrow> (nat \<Rightarrow> fault + response) \<Rightarrow> real \<Rightarrow> world
     \<Rightarrow> (exn + strands_client) \<times> world" where
  "strands_mcp_client str_of environ post now w =
     (if environ ''LOCAL_DEV'' = Some ''1'' then (Inr LocalDummy, w)
      else
        (case get_streamable_http_mcp_client str_of environ post now w of
           (Inl e, w') \<Rightarrow> (Inl e, w')
         | (Inr c, w') \<Rightarrow> (Inr (Gateway c), w')))"

section \<open>The request handler (\<^verbatim>\<open>main.py\<close>, \<^verbatim>\<open>invoke\<close>)\<close>

datatype log_entry = LogInfo string | LogWarning string | LogError string

record retrieval =
  top_k :: nat
  relevance_score :: real

record memory_config =
  memory_id :: string
  session_id :: pyval
  actor_id :: pyval
  retrieval_config :: "(string \<times> retrieval) list"

datatype session_manager = AgentCoreMemorySessionManager memory_config "string option"

text \<open>
  A stream event is a dict. The loop looks at one key and asks one question of its
  value, \<^verbatim>\<open>isinstance(v, str)\<close>; a value is a string or it is not.
\<close>

datatype event_value = Str string | NotStr

type_synonym event = "string \<rightharpoonup> event_value"

text \<open>
  What a pull from the stream can raise: an instance of \<^verbatim>\<open>Exception\<close>, or an exception
  outside that class (\<^verbatim>\<open>asyncio.CancelledError\<close>, \<^verbatim>\<open>KeyboardInterrupt\<close>,
  \<^verbatim>\<open>SystemExit\<close>, \<^verbatim>\<open>GeneratorExit\<close>), known by its class name. The pull is where the
  handler awaits, so it is where a cancellation of the request arrives.
\<close>

datatype py_exception = ExceptionInstance fault | BaseExceptionOnly string

text \<open>How pulling from the stream ends once its events are used up.\<close>

datatype stream_end = StopAsyncIteration | Raise py_exception

text \<open>The arguments \<^verbatim>\<open>Agent(...)\<close> receives; the system prompt is a constant text.\<close>

record agent =
  model :: string
  agent_session_manager :: "session_manager option"
  tools :: "string list"

text \<open>
  The services behind the handler, each with the outcome of its call: a fault or a
  value. \<open>transport\<close> is what the gateway client opens when the \<^verbatim>\<open>with\<close> block is
  entered.
\<close>

record backend =
  py_str :: "pyval \<Rightarrow> string"
  format_exc :: "fault \<Rightarrow> string"
  memory_init :: "memory_config \<Rightarrow> string option \<Rightarrow> fault option"
  code_interpreter :: "string option \<Rightarrow> pyval \<Rightarrow> fault + string"
  list_tools_sync :: "transport \<Rightarrow> fault + string list"
  load_model :: "fault + string"
  agent_init :: "agent \<Rightarrow> fault option"
  stream_async :: "agent \<Rightarrow> pyval \<Rightarrow> event list \<times> stream_end"

text \<open>
  What the caller of the handler observes: the log, the fragments yielded so far, and
  the fault that left the handler, if one did.
\<close>

record outcome =
  logged :: "log_entry list"
  yielded :: "string list"
  raised :: "py_exception option"

text \<open>Lines 151 and 154; \<open>context_session_id\<close> is \<^verbatim>\<open>getattr(context, 'session_id', None)\<close>.\<close>

definition resolve_session_id :: "pyval \<Rightarrow> (string \<rightharpoonup> pyval) \<Rightarrow> pyval" where
  "resolve_session_id context_session_id payload =
     (if truthy context_session_id then context_session_id
      else (case payload ''sessionId'' of None \<Rightarrow> PyStr ''default'' | Some v \<Rightarrow> v))"

definition resolve_actor_id :: "(string \<rightharpoonup> pyval) \<Rightarrow> pyval" where
  "resolve_actor_id payload =
     (case payload ''userId'' of None \<Rightarrow> PyStr ''default-user'' | Some v \<Rightarrow> v)"

text \<open>The \<^verbatim>\<open>AgentCoreMemoryConfig\<close> of lines 164-174.\<close>

definition memory_config_of :: "backend \<Rightarrow> string \<Rightarrow> pyval \<Rightarrow> pyval \<Rightarrow> memory_config" where
  "memory_config_of b mid sid aid =
     \<lparr>memory_id = mid, session_id = sid, actor_id = aid,
      retrieval_config =
        [(''/'' @ format_value (py_str b) aid @ ''/facts'',
            \<lparr>top_k = 10, relevance_score = 3 / 10\<rparr>),
         (''/'' @ format_value (py_str b) aid @ ''/preferences'',
            \<lparr>top_k = 5, relevance_score = 3 / 10\<rparr>)]\<rparr>"

text \<open>
  Lines 158-184: the memory session manager and the log lines written on the way.
  \<^verbatim>\<open>if MEMORY_ID\<close> fails for an unset and for an empty variable; the \<^verbatim>\<open>except\<close>
  clause takes every fault of the constructor.
\<close>

definition configure_memory ::
  "backend \<Rightarrow> string option \<Rightarrow> string option \<Rightarrow> pyval \<Rightarrow> pyval
     \<Rightarrow> session_manager option \<times> log_entry list" where
  "configure_memory b MEMORY_ID REGION sid aid =
     (case MEMORY_ID of
        None \<Rightarrow>
          (None,
           [LogWarning ''MEMORY_ID is not set. Skipping memory session manager initialization.''])
      | Some mid \<Rightarrow>
          if mid = [] then
            (None,
             [LogWarning ''MEMORY_ID is not set. Skipping memory session manager initialization.''])
          else
            (case memory_init b (memory_config_of b mid sid aid) REGION of
               None \<Rightarrow>
                 (Some (AgentCoreMemorySessionManager (memory_config_of b mid sid aid) REGION),
                  [LogInfo (''Memory session manager initialized - memory_id: '' @ mid
                     @ '', actor_id: '' @ format_value (py_str b) aid
                     @ '', session_id: '' @ format_value (py_str b) sid)])
             | Some e \<Rightarrow>
                 (None,
                  [LogError (''Failed to initialize memory session manager: '' @ fault_str e),
                   LogError (format_exc b e)])))"

text \<open>
  The loop of lines 232-235 over the events still to come: a string under
  \<^verbatim>\<open>"data"\<close> is yielded, every other event is passed over. The result is the
  exception that ended the loop, if any, beside everything yielded.
\<close>

fun async_for ::
  "event list \<Rightarrow> stream_end \<Rightarrow> string list \<Rightarrow> py_exception option \<times> string list" where
  "async_for [] StopAsyncIteration ys = (None, ys)"
| "async_for [] (Raise e) ys = (Some e, ys)"
| "async_for (event # events) fin ys =
     async_for events fin
       (case event ''data'' of
          None \<Rightarrow> ys
        | Some NotStr \<Rightarrow> ys
        | Some (Str s) \<Rightarrow> ys @ [s])"

text \<open>
  Lines 229-246: the loop inside \<^verbatim>\<open>try\<close>, and the \<^verbatim>\<open>except Exception\<close> clause,
  which takes the instances of \<^verbatim>\<open>Exception\<close> and lets every other exception leave the
  handler.
\<close>

definition stream_response :: "event list \<times> stream_end \<Rightarrow> outcome \<Rightarrow> outcome" where
  "stream_response stream out =
     (case async_for (fst stream) (snd stream) (yielded out) of
        (None, ys) \<Rightarrow> out\<lparr>yielded := ys\<rparr>
      | (Some (ExceptionInstance e), ys) \<Rightarrow>
          out\<lparr>logged := logged out @ [LogError (''Error during streaming: '' @ fault_str e)],
              yielded := ys @ [''I encountered an error: '' @ fault_str e]\<rparr>
      | (Some (BaseExceptionOnly c), ys) \<Rightarrow>
          out\<lparr>yielded := ys, raised := Some (BaseExceptionOnly c)\<rparr>)"

text \<open>Entering \<^verbatim>\<open>with strands_mcp_client as client\<close> and line 197.\<close>

fun gateway_tools :: "backend \<Rightarrow> strands_client \<Rightarrow> world \<Rightarrow> fault + string list" where
  "gateway_tools b LocalDummy w = Inr []"
| "gateway_tools b (Gateway c) w = list_tools_sync b (open_transport c w)"

text \<open>
  Lines 187-246, from the code interpreter on, with the session manager and the log that
  the first part of the handler produced. A fault outside the \<^verbatim>\<open>try\<close> leaves the
  handler.
\<close>

definition run_agent ::
  "backend \<Rightarrow> string option \<Rightarrow> strands_client \<Rightarrow> world \<Rightarrow> pyval \<Rightarrow> pyval
     \<Rightarrow> session_manager option \<Rightarrow> log_entry list \<Rightarrow> outcome" where
  "run_agent b REGION client w sid prompt sm lg =
     (case code_interpreter b REGION sid of
        Inl f \<Rightarrow> \<lparr>logged = lg, yielded = [], raised = Some (ExceptionInstance f)\<rparr>
      | Inr interpreter_tool \<Rightarrow>
         (case gateway_tools b client w of
            Inl f \<Rightarrow> \<lparr>logged = lg, yielded = [], raised = Some (ExceptionInstance f)\<rparr>
          | Inr gw_tools \<Rightarrow>
             (case load_model b of
                Inl f \<Rightarrow> \<lparr>logged = lg, yielded = [], raised = Some (ExceptionInstance f)\<rparr>
              | Inr m \<Rightarrow>
                 let a = \<lparr>model = m, agent_session_manager = sm,
                          tools = [interpreter_tool, ''analyze_text'', ''calculate_basic_stats'']
                                    @ gw_tools\<rparr>
                 in (case agent_init b a of
                       Some f \<Rightarrow>
                         \<lparr>logged = lg, yielded = [], raised = Some (ExceptionInstance f)\<rparr>
                     | None \<Rightarrow>
                         stream_response (stream_async b a prompt)
                           \<lparr>logged = lg, yielded = [], raised = None\<rparr>))))"

text \<open>
  \<^verbatim>\<open>invoke(payload, context)\<close>, lines 150-246. \<open>MEMORY_ID\<close> and \<open>REGION\<close> are the
  module constants read from the environment, \<open>client\<close> is the module's
  \<^verbatim>\<open>strands_mcp_client\<close>, \<open>w\<close> the world at the time of the request.
\<close>

definition invoke ::
  "backend \<Rightarrow> string option \<Rightarrow> string option \<Rightarrow> strands_client \<Rightarrow> world
     \<Rightarrow> (string \<rightharpoonup> pyval) \<Rightarrow> pyval \<Rightarrow> outcome" where
  "invoke b MEMORY_ID REGION client w payload context_session_id =
     (let sid = resolve_session_id context_session_id payload;
          aid = resolve_actor_id payload;
          lg = [LogInfo (''Invoke called with session_id: '' @ format_value (py_str b) sid
                  @ '', actor_id: '' @ format_value (py_str b) aid)];
          (sm, lg') = configure_memory b MEMORY_ID REGION sid aid;
          prompt = (case payload ''prompt'' of None \<Rightarrow> PyNone | Some v \<Rightarrow> v)
      in run_agent b REGION client w sid prompt sm (lg @ lg'))"

text \<open>
  The text fragments of an event sequence, in order: the payloads of the events that
  carry a string under \<^verbatim>\<open>"data"\<close>.
\<close>

definition is_text_fragment :: "event \<Rightarrow> bool" where
  "is_text_fragment ev \<longleftrightarrow> (case ev ''data'' of Some (Str s) \<Rightarrow> True | _ \<Rightarrow> False)"

definition fragment_text :: "event \<Rightarrow> string" where
  "fragment_text ev = (case ev ''data'' of Some (Str s) \<Rightarrow> s | _ \<Rightarrow> [])"

definition text_fragments :: "event list \<Rightarrow> string list" where
  "text_fragments events = map fragment_text (filter is_text_fragment events)"

section \<open>Concrete inputs\<close>

text \<open>Endpoints, worlds and streams at which the statements below are evaluated.\<close>

definition example_post :: "nat \<Rightarrow> fault + response" where
  "example_post i =
     token_response [(''access_token'', PyStr ''tok-A''), (''expires_in'', PyInt 3600)]"

definition fetched_world :: world where
  "fetched_world =
     \<lparr>cache = \<lparr>token = PyStr ''tok-A'', expires_at = Finite 4600\<rparr>, calls = 1\<rparr>"

definition error_body_post :: "nat \<Rightarrow> fault + response" where
  "error_body_post i =
     Inr \<lparr>status_code = 400,
          response_json = Inr (PyDict [(''error'', PyStr ''invalid_client'')])\<rparr>"

definition unreachable_post :: "nat \<Rightarrow> fault + response" where
  "unreachable_post i = Inl (Fault ''ConnectionError'' ''connection refused'')"

definition not_json_post :: "nat \<Rightarrow> fault + response" where
  "not_json_post i =
     Inr \<lparr>status_code = 502,
          response_json = Inl (Fault ''JSONDecodeError'' ''Expecting value'')\<rparr>"


definition rotating_post :: "nat \<Rightarrow> fault + response" where
  "rotating_post i =
     token_response [(''access_token'', PyStr (if i = 0 then ''tok-A'' else ''tok-B'')),
                     (''expires_in'', PyInt 3600)]"

definition text_expiry_post :: "nat \<Rightarrow> fault + response" where
  "text_expiry_post i =
     token_response [(''access_token'', PyStr ''tok-B''), (''expires_in'', PyStr ''3600'')]"

definition empty_token_post :: "nat \<Rightarrow> fault + response" where
  "empty_token_post i =
     token_response [(''access_token'', PyStr []), (''expires_in'', PyInt 3600)]"

definition gateway_environ :: "string \<rightharpoonup> string" where
  "gateway_environ = [''GATEWAY_URL'' \<mapsto> ''https://gateway.example/mcp'']"

text \<open>Stands for \<^verbatim>\<open>str\<close> where only strings are formatted.\<close>

definition strings_only :: "pyval \<Rightarrow> string" where
  "strings_only v = []"

definition example_client :: mcp_client where
  "example_client =
     MCPClient (\<lambda>later. streamablehttp_client ''https://gateway.example/mcp''
        [(''Authorization'', ''Bearer tok-A'')])"

definition example_events :: "event list" where
  "example_events =
     [[''data'' \<mapsto> Str ''Hel''], [''toolUse'' \<mapsto> NotStr], [''data'' \<mapsto> NotStr],
      [''data'' \<mapsto> Str ''lo'']]"

definition example_backend :: backend where
  "example_backend =
     \<lparr>py_str = strings_only,
      format_exc = (\<lambda>f. ''Traceback (most recent call last): '' @ fault_str f),
      memory_init = (\<lambda>cfg region. Some (Fault ''ClientError'' ''memory not found'')),
      code_interpreter = (\<lambda>region sid. Inr ''code_interpreter''),
      list_tools_sync = (\<lambda>t. Inr [''search'']),
      load_model = Inr ''model'',
      agent_init = (\<lambda>a. None),
      stream_async = (\<lambda>a prompt. (example_events, StopAsyncIteration))\<rparr>"

definition example_payload :: "string \<rightharpoonup> pyval" where
  "example_payload = [''prompt'' \<mapsto> PyStr ''hi'', ''userId'' \<mapsto> PyStr ''u-1'']"

definition huge_expiry_post :: "nat \<Rightarrow> fault + response" where
  "huge_expiry_post i =
     token_response [(''access_token'', PyStr ''tok-B''), (''expires_in'', PyInt (2 ^ 1024))]"

definition short_expiry_post :: "nat \<Rightarrow> fault + response" where
  "short_expiry_post i =
     token_response [(''access_token'', PyStr ''tok-A''), (''expires_in'', PyInt 301)]"

section \<open>Rounding to a double\<close>

lemma round_half_even_error: "\<bar>of_int (round_half_even y) - y\<bar> \<le> 1 / 2"
  unfolding round_half_even_def Let_def by (auto simp: abs_le_iff)

lemma round_half_even_of_int [simp]: "round_half_even (of_int n) = n"
  by (simp add: round_half_even_def)

lemma round_half_even_zero [simp]: "round_half_even 0 = 0"
  using round_half_even_of_int [of 0] by simp

lemma round_half_even_ge:
  assumes "of_int n \<le> y"
  shows "n \<le> round_half_even y"
proof -
  from assms have "n \<le> \<lfloor>y\<rfloor>" by (simp add: le_floor_iff)
  moreover have "\<lfloor>y\<rfloor> \<le> round_half_even y"
    unfolding round_half_even_def Let_def by simp
  ultimately show ?thesis by linarith
qed

lemma round_double_zero [simp]: "round_double 0 = Finite 0"
  by (simp add: round_double_def not_le)

text \<open>A positive integer of \<open>mantissa_bits + j\<close> bits loses its \<open>j\<close> low bits.\<close>

lemma round_double_pos_int:
  assumes "0 < a" and "bitlen a = mantissa_bits + int j"
  shows "round_double (of_int a) =
     (if (2::real) ^ max_exp \<le> of_int (round_half_even (of_int a / 2 ^ j)) * 2 ^ j then PosInf
      else Finite (of_int (round_half_even (of_int a / 2 ^ j)) * 2 ^ j))"
proof -
  have s: "\<bar>real_of_int a\<bar> * 2 ^ denorm_exp = of_int (a * 2 ^ denorm_exp)"
    using assms(1) by simp
  have fl: "\<lfloor>\<bar>real_of_int a\<bar> * 2 ^ denorm_exp\<rfloor> = a * 2 ^ denorm_exp"
    unfolding s by (rule floor_of_int)
  have kk: "nat (bitlen (a * 2 ^ denorm_exp) - mantissa_bits) = j + denorm_exp"
    using assms by simp
  have q: "\<bar>real_of_int a\<bar> * 2 ^ denorm_exp / 2 ^ (j + denorm_exp) = of_int a / 2 ^ j"
    using assms(1) by (simp add: power_add)
  have r: "real_of_int m * 2 ^ (j + denorm_exp) / 2 ^ denorm_exp = real_of_int m * 2 ^ j" for m
    by (simp add: power_add)
  show ?thesis
    unfolding round_double_def Let_def fl kk q r using assms(1) by simp
qed

text \<open>Integers below \<open>2 ^ 53\<close> in magnitude are doubles.\<close>

lemma round_double_of_int:
  assumes "\<bar>i\<bar> < 2 ^ 53"
  shows "round_double (of_int i) = Finite (of_int i)"
proof (cases "i = 0")
  case True
  then show ?thesis by simp
next
  case False
  define a where "a = \<bar>i\<bar>"
  have a: "0 < a" "a < 2 ^ 53" using False assms by (auto simp: a_def)
  have bl: "1 \<le> bitlen a" "bitlen a \<le> 53"
    using a by (auto simp: bitlen_ge_iff_power bitlen_le_iff_power)
  define k where "k = nat (bitlen a + int denorm_exp - mantissa_bits)"
  have k: "k \<le> denorm_exp" using bl by (auto simp: k_def mantissa_bits_def)
  have s: "\<bar>real_of_int i\<bar> * 2 ^ denorm_exp = of_int (a * 2 ^ denorm_exp)"
    by (simp add: a_def)
  have fl: "\<lfloor>\<bar>real_of_int i\<bar> * 2 ^ denorm_exp\<rfloor> = a * 2 ^ denorm_exp"
    unfolding s by (rule floor_of_int)
  have kk: "nat (bitlen (a * 2 ^ denorm_exp) - mantissa_bits) = k"
    using a by (simp add: k_def)
  have split: "(2::real) ^ denorm_exp = 2 ^ (denorm_exp - k) * 2 ^ k"
    using k by (simp flip: power_add)
  have q: "\<bar>real_of_int i\<bar> * 2 ^ denorm_exp / 2 ^ k = of_int (a * 2 ^ (denorm_exp - k))"
    unfolding s by (simp add: split)
  have r: "of_int (round_half_even (\<bar>real_of_int i\<bar> * 2 ^ denorm_exp / 2 ^ k))
        * 2 ^ k / 2 ^ denorm_exp = real_of_int a"
    unfolding q round_half_even_of_int by (simp add: split)
  have small: "real_of_int a < 2 ^ max_exp"
  proof -
    have "real_of_int a < 2 ^ 53" using a(2) by (metis of_int_less_numeral_power_cancel_iff)
    also have "\<dots> \<le> 2 ^ max_exp" by (rule power_increasing) (simp_all add: max_exp_def)
    finally show ?thesis .
  qed
  show ?thesis
    unfolding round_double_def Let_def fl kk r
    using small by (auto simp: a_def)
qed

lemma round_double_numeral:
  "(numeral n :: int) < 2 ^ 53 \<Longrightarrow> round_double (numeral n) = Finite (numeral n)"
  using round_double_of_int [of "numeral n"] by simp

lemma round_double_neg_numeral:
  "(numeral n :: int) < 2 ^ 53 \<Longrightarrow> round_double (- numeral n) = Finite (- numeral n)"
  using round_double_of_int [of "- numeral n"] by simp

text \<open>Below \<open>2 ^ 52\<close> in magnitude the doubles are at most half a unit apart.\<close>

lemma round_double_error:
  assumes "\<bar>x\<bar> < 2 ^ 52"
  shows "\<exists>r. round_double x = Finite r \<and> \<bar>r - x\<bar> \<le> 1 / 4"
proof -
  define s where "s = \<bar>x\<bar> * 2 ^ denorm_exp"
  define k where "k = nat (bitlen \<lfloor>s\<rfloor> - mantissa_bits)"
  define m where "m = round_half_even (s / 2 ^ k)"
  define c where "c = (2::real) ^ k / 2 ^ denorm_exp"
  define r where "r = real_of_int m * c"
  have "s < 2 ^ 52 * 2 ^ denorm_exp" unfolding s_def using assms by simp
  then have s_lt: "s < 2 ^ (52 + denorm_exp)" by (simp add: power_add)
  have "\<lfloor>s\<rfloor> < 2 ^ (52 + denorm_exp)"
  proof -
    have "real_of_int \<lfloor>s\<rfloor> \<le> s" by simp
    with s_lt have "real_of_int \<lfloor>s\<rfloor> < 2 ^ (52 + denorm_exp)" by linarith
    then show ?thesis by (metis of_int_less_numeral_power_cancel_iff)
  qed
  then have "bitlen \<lfloor>s\<rfloor> \<le> int (52 + denorm_exp)"
    unfolding bitlen_le_iff_power nat_int by simp
  then have k: "Suc k \<le> denorm_exp" by (simp add: k_def mantissa_bits_def denorm_exp_def)
  have err: "\<bar>real_of_int m - s / 2 ^ k\<bar> \<le> 1 / 2"
    unfolding m_def by (rule round_half_even_error)
  have c: "0 \<le> c" "c \<le> 1 / 2"
  proof -
    show "0 \<le> c" by (simp add: c_def)
    have "(2::real) ^ Suc k \<le> 2 ^ denorm_exp" using k by (intro power_increasing) simp_all
    then show "c \<le> 1 / 2" by (simp add: c_def field_simps)
  qed
  have x_eq: "\<bar>x\<bar> = (s / 2 ^ k) * c" by (simp add: s_def c_def)
  have "r - \<bar>x\<bar> = (real_of_int m - s / 2 ^ k) * c"
    unfolding r_def x_eq by (simp add: algebra_simps)
  then have "\<bar>r - \<bar>x\<bar>\<bar> = \<bar>real_of_int m - s / 2 ^ k\<bar> * c"
    using c(1) by (simp add: abs_mult)
  also have "\<dots> \<le> (1 / 2) * (1 / 2)"
    using err c by (intro mult_mono) simp_all
  finally have bound: "\<bar>r - \<bar>x\<bar>\<bar> \<le> 1 / 4" by simp
  have "r < 2 ^ 52 + 1" using bound assms by linarith
  also have "(2::real) ^ 52 + 1 \<le> 2 ^ 53" by simp
  also have "(2::real) ^ 53 \<le> 2 ^ max_exp" by (rule power_increasing) (simp_all add: max_exp_def)
  finally have fin: "\<not> 2 ^ max_exp \<le> r" by simp
  have r': "real_of_int (round_half_even (\<bar>x\<bar> * 2 ^ denorm_exp
        / 2 ^ nat (bitlen \<lfloor>\<bar>x\<bar> * 2 ^ denorm_exp\<rfloor> - mantissa_bits)))
        * 2 ^ nat (bitlen \<lfloor>\<bar>x\<bar> * 2 ^ denorm_exp\<rfloor> - mantissa_bits) / 2 ^ denorm_exp = r"
    by (simp add: r_def c_def m_def k_def s_def)
  have rd: "round_double x = Finite (if 0 \<le> x then r else - r)"
    unfolding round_double_def Let_def r' using fin by simp
  have "\<bar>(if 0 \<le> x then r else - r) - x\<bar> \<le> 1 / 4"
  proof (cases "0 \<le> x")
    case True
    with bound show ?thesis by simp
  next
    case False
    then have "\<bar>- r - x\<bar> = \<bar>r - \<bar>x\<bar>\<bar>" by linarith
    with bound False show ?thesis by simp
  qed
  with rd show ?thesis by blast
qed

text \<open>An \<^verbatim>\<open>int\<close> from \<open>2 ^ 1024\<close> on has no double.\<close>

lemma int_to_float_overflow:
  assumes "2 ^ max_exp \<le> a"
  shows "int_to_float a = Inl OverflowError"
proof -
  have pos: "0 < a"
  proof -
    have "(0::int) < 2 ^ max_exp" by simp
    with assms show ?thesis by linarith
  qed
  define j where "j = nat (bitlen a - mantissa_bits)"
  have "nat (int max_exp + 1) - 1 = max_exp" by simp
  then have b: "int max_exp + 1 \<le> bitlen a"
    unfolding bitlen_ge_iff_power using assms by simp
  then have bj: "bitlen a = mantissa_bits + int j"
    by (simp add: j_def mantissa_bits_def max_exp_def)
  have exp_eq: "nat (bitlen a - 1) = 52 + j"
    using b by (simp add: j_def mantissa_bits_def max_exp_def)
  have "(2::int) ^ (52 + j) \<le> a"
    using bitlen_bounds [OF pos] by (simp add: exp_eq)
  then have "real_of_int (2 ^ (52 + j)) \<le> real_of_int a" by (rule of_int_le_iff [THEN iffD2])
  then have "real_of_int (2 ^ 52) * 2 ^ j \<le> real_of_int a" by (simp add: power_add)
  then have "real_of_int (2 ^ 52) \<le> real_of_int a / 2 ^ j" by (simp add: field_simps)
  then have "2 ^ 52 \<le> round_half_even (real_of_int a / 2 ^ j)" by (rule round_half_even_ge)
  then have "real_of_int (2 ^ 52) \<le> real_of_int (round_half_even (real_of_int a / 2 ^ j))"
    by (rule of_int_le_iff [THEN iffD2])
  then have "real_of_int (2 ^ 52) * 2 ^ j
      \<le> real_of_int (round_half_even (real_of_int a / 2 ^ j)) * 2 ^ j"
    by (rule mult_right_mono) simp
  moreover have "(2::real) ^ max_exp \<le> real_of_int (2 ^ 52) * 2 ^ j"
  proof -
    have "max_exp \<le> 52 + j" using b exp_eq by linarith
    then have "(2::real) ^ max_exp \<le> 2 ^ (52 + j)" by (intro power_increasing) simp_all
    then show ?thesis by (simp add: power_add)
  qed
  ultimately have "(2::real) ^ max_exp
      \<le> real_of_int (round_half_even (real_of_int a / 2 ^ j)) * 2 ^ j" by linarith
  then have "round_double (of_int a) = PosInf"
    by (simp add: round_double_pos_int [OF pos bj])
  then show ?thesis by (simp add: int_to_float_def)
qed

section \<open>The token cache: hits, misses and the expiry boundary\<close>

lemma refresh_success:
  assumes "\<not> cache_valid (cache w) t"
    and "post (calls w) = Inr resp"
    and "response_json resp = Inr (PyDict kvs)"
    and "map_of kvs ''access_token'' = Some tok"
    and "dict_get (PyDict kvs) ''expires_in'' (PyInt 3600) = Inr expires_in"
    and "float_add t expires_in = Inr texp"
  shows "get_access_token post t w =
    (Inr tok, \<lparr>cache = \<lparr>token = tok, expires_at = texp\<rparr>, calls = Suc (calls w)\<rparr>)"
  using assms by (simp add: get_access_token_def Let_def split: option.splits)

lemma cache_hit:
  assumes "cache_valid (cache w) t"
  shows "get_access_token post t w = (Inr (token (cache w)), w)"
  using assms by (simp add: get_access_token_def)

lemma cache_miss_calls:
  assumes "\<not> cache_valid (cache w) t"
  shows "calls (snd (get_access_token post t w)) = Suc (calls w)"
  using assms
  by (simp add: get_access_token_def Let_def split: sum.splits)

lemma hits_only:
  assumes "truthy (token (cache w))"
    and "\<forall>t \<in> set ts. float_less (Finite t) (float_minus (expires_at (cache w)) (Finite 300))"
  shows "get_access_tokens post ts w = (replicate (length ts) (Inr (token (cache w))), w)"
  using assms
  by (induction ts) (simp_all add: cache_hit cache_valid_def)

lemma initial_miss: "\<not> cache_valid (cache initial_world) t"
  by (simp add: cache_valid_def initial_world_def initial_cache_def)

lemma float_add_seconds: "float_add 1000 (PyInt 3600) = Inr (Finite 4600)"
  by (simp add: int_to_float_def round_double_numeral)

lemma example_fetch:
  "get_access_token example_post 1000 initial_world = (Inr (PyStr ''tok-A''), fetched_world)"
proof -
  have "get_access_token example_post 1000 initial_world =
      (Inr (PyStr ''tok-A''),
       \<lparr>cache = \<lparr>token = PyStr ''tok-A'', expires_at = Finite 4600\<rparr>,
        calls = Suc (calls initial_world)\<rparr>)"
    by (rule refresh_success [OF initial_miss, where kvs =
          "[(''access_token'', PyStr ''tok-A''), (''expires_in'', PyInt 3600)]"
          and expires_in = "PyInt 3600" and resp = "\<lparr>status_code = 200, response_json =
            Inr (PyDict [(''access_token'', PyStr ''tok-A''), (''expires_in'', PyInt 3600)])\<rparr>"])
       (simp_all add: example_post_def token_response_def int_to_float_def round_double_numeral)
  then show ?thesis by (simp add: fetched_world_def initial_world_def)
qed

lemma fetched_valid:
  "cache_valid (cache fetched_world) t \<longleftrightarrow> t < 4300"
  by (simp add: cache_valid_def fetched_world_def round_double_numeral)

text \<open>
  After a sum of magnitude at most \<open>2 ^ 51\<close> has been stored, the threshold of the test
  is within half a second of the exact one.
\<close>

lemma buffer_threshold:
  assumes "\<bar>X\<bar> \<le> 2 ^ 51"
  shows "\<exists>r. float_minus (round_double X) (Finite 300) = Finite r \<and> \<bar>r - (X - 300)\<bar> \<le> 1 / 2"
proof -
  from assms have "\<bar>X\<bar> < 2 ^ 52" by simp
  then obtain r1 where r1: "round_double X = Finite r1" "\<bar>r1 - X\<bar> \<le> 1 / 4"
    using round_double_error by blast
  have "\<bar>X\<bar> \<le> 2251799813685248" using assms by simp
  with r1(2) have "\<bar>r1 - 300\<bar> < 4503599627370496" by linarith
  then have "\<bar>r1 - 300\<bar> < 2 ^ 52" by simp
  then obtain r2 where r2: "round_double (r1 - 300) = Finite r2" "\<bar>r2 - (r1 - 300)\<bar> \<le> 1 / 4"
    using round_double_error by blast
  have "\<bar>r2 - (X - 300)\<bar> \<le> 1 / 2" using r1(2) r2(2) by linarith
  then show ?thesis by (simp add: r1(1) r2(1))
qed

text \<open>
  Claim C2 as written: a token fetched at time \<open>T\<close> with \<^verbatim>\<open>expires_in = E\<close> is refetched
  by a call at \<open>T + E - 301\<close> and not by a call at \<open>T + E - 299\<close>. The code does the
  opposite. With \<open>T = 1000\<close> and \<open>E = 3600\<close> the fetch is the first request; the call at
  4299 issues none, the call at 4301 issues the second.
\<close>

theorem refetch_boundary_counterexample:
  "get_access_token example_post 1000 initial_world = (Inr (PyStr ''tok-A''), fetched_world)
   \<and> expires_at (cache fetched_world) = Finite (1000 + 3600)
   \<and> calls fetched_world = 1
   \<and> calls (snd (get_access_token example_post (1000 + 3600 - 301) fetched_world)) = 1
   \<and> calls (snd (get_access_token example_post (1000 + 3600 - 299) fetched_world)) = 2"
proof -
  have hit: "cache_valid (cache fetched_world) (1000 + 3600 - 301)"
    by (simp add: fetched_valid)
  have miss: "\<not> cache_valid (cache fetched_world) (1000 + 3600 - 299)"
    by (simp add: fetched_valid)
  have "calls fetched_world = 1" "expires_at (cache fetched_world) = Finite (1000 + 3600)"
    by (simp_all add: fetched_world_def)
  then show ?thesis
    using example_fetch cache_hit [OF hit, of example_post]
      cache_miss_calls [OF miss, of example_post]
    by simp
qed

text \<open>
  Claim C2, amended: for a non-empty token fetched at time \<open>T\<close> with an integer
  \<^verbatim>\<open>expires_in = E\<close>, where \<open>E\<close> is below \<open>2 ^ 53\<close> and \<open>T + E\<close> at most \<open>2 ^ 51\<close> in
  magnitude, the stored expiry is the double nearest to \<open>T + E\<close>; every call at a time up
  to \<open>T + E - 301\<close> returns the cached token and leaves the world as it is (no request),
  and every call at a time from \<open>T + E - 299\<close> on issues one request. The two roundings
  of lines 47 and 27 move the threshold by at most half a second in this range.
\<close>

theorem refetch_boundary:
  assumes "\<not> cache_valid (cache w0) T"
    and "post (calls w0) = Inr resp"
    and "response_json resp = Inr (PyDict kvs)"
    and "map_of kvs ''access_token'' = Some tok"
    and "truthy tok"
    and "map_of kvs ''expires_in'' = Some (PyInt E)"
    and "\<bar>E\<bar> < 2 ^ 53"
    and "\<bar>T + of_int E\<bar> \<le> 2 ^ 51"
    and "w = snd (get_access_token post T w0)"
  shows "expires_at (cache w) = round_double (T + of_int E)
     \<and> (\<forall>t. t \<le> T + of_int E - 301 \<longrightarrow> get_access_token post t w = (Inr tok, w))
     \<and> (\<forall>t. T + of_int E - 299 \<le> t \<longrightarrow>
           calls (snd (get_access_token post t w)) = Suc (calls w))"
proof -
  have add: "float_add T (PyInt E) = Inr (round_double (T + of_int E))"
    using \<open>\<bar>E\<bar> < 2 ^ 53\<close> by (simp add: int_to_float_def round_double_of_int)
  have w: "w = \<lparr>cache = \<lparr>token = tok, expires_at = round_double (T + of_int E)\<rparr>,
                calls = Suc (calls w0)\<rparr>"
    using assms(1-4,6,9) add by (simp add: refresh_success)
  obtain r where r: "float_minus (round_double (T + of_int E)) (Finite 300) = Finite r"
      "\<bar>r - (T + of_int E - 300)\<bar> \<le> 1 / 2"
    using buffer_threshold [OF assms(8)] by blast
  have valid: "cache_valid (cache w) t \<longleftrightarrow> t < r" for t
    using \<open>truthy tok\<close> by (subst w) (simp add: cache_valid_def r(1))
  have "expires_at (cache w) = round_double (T + of_int E)" by (subst w) simp
  moreover have "get_access_token post t w = (Inr tok, w)" if "t \<le> T + of_int E - 301" for t
  proof -
    have "cache_valid (cache w) t" unfolding valid using that r(2) by linarith
    then have "get_access_token post t w = (Inr (token (cache w)), w)" by (rule cache_hit)
    moreover have "token (cache w) = tok" by (subst w) simp
    ultimately show ?thesis by simp
  qed
  moreover have "calls (snd (get_access_token post t w)) = Suc (calls w)"
    if "T + of_int E - 299 \<le> t" for t
  proof -
    have "\<not> cache_valid (cache w) t" unfolding valid using that r(2) by linarith
    then show ?thesis by (rule cache_miss_calls)
  qed
  ultimately show ?thesis by blast
qed

text \<open>The amended C2 at the fetch of time 1000 with a lifetime of 3600 seconds.\<close>

theorem refetch_boundary_witness:
  "expires_at (cache fetched_world) = Finite (1000 + 3600)
   \<and> get_access_token example_post (1000 + 3600 - 301) fetched_world
       = (Inr (PyStr ''tok-A''), fetched_world)
   \<and> calls (snd (get_access_token example_post (1000 + 3600 - 299) fetched_world))
       = Suc (calls fetched_world)"
proof -
  have post: "example_post (calls initial_world)
      = Inr \<lparr>status_code = 200, response_json = Inr (PyDict
          [(''access_token'', PyStr ''tok-A''), (''expires_in'', PyInt 3600)])\<rparr>"
    by (simp add: example_post_def token_response_def)
  have w: "fetched_world = snd (get_access_token example_post 1000 initial_world)"
    by (simp add: example_fetch)
  have "expires_at (cache fetched_world) = round_double (1000 + of_int 3600)
     \<and> (\<forall>t. t \<le> 1000 + of_int 3600 - 301 \<longrightarrow>
           get_access_token example_post t fetched_world = (Inr (PyStr ''tok-A''), fetched_world))
     \<and> (\<forall>t. 1000 + of_int 3600 - 299 \<le> t \<longrightarrow>
           calls (snd (get_access_token example_post t fetched_world))
             = Suc (calls fetched_world))"
    by (rule refetch_boundary [OF initial_miss post _ _ _ _ _ _ w, where kvs =
          "[(''access_token'', PyStr ''tok-A''), (''expires_in'', PyInt 3600)]"])
       simp_all
  then show ?thesis by (simp add: round_double_numeral)
qed

text \<open>
  Claim C3 as written: any \<open>N\<close> calls inside the validity window cost one request. The
  test of line 26 also asks that the cached token be true: when the endpoint answers the
  empty string as token, a call at time 1000 and a call at time 1001, which is before the
  expiry 4600 minus 300, issue two requests.
\<close>

theorem repeated_reads_counterexample:
  "get_access_tokens empty_token_post [1000, 1001] initial_world =
     ([Inr (PyStr []), Inr (PyStr [])],
      \<lparr>cache = \<lparr>token = PyStr [], expires_at = Finite 4601\<rparr>, calls = 2\<rparr>)
   \<and> float_less (Finite 1001) (float_minus (Finite 4600) (Finite 300))"
proof -
  let ?kvs = "[(''access_token'', PyStr []), (''expires_in'', PyInt 3600)]"
  let ?resp = "\<lparr>status_code = 200, response_json = Inr (PyDict ?kvs)\<rparr>"
  let ?w1 = "\<lparr>cache = \<lparr>token = PyStr [], expires_at = Finite 4600\<rparr>, calls = Suc (calls initial_world)\<rparr>"
  have first: "get_access_token empty_token_post 1000 initial_world = (Inr (PyStr []), ?w1)"
    by (rule refresh_success [OF initial_miss, where kvs = ?kvs and expires_in = "PyInt 3600"
          and resp = ?resp])
       (simp_all add: empty_token_post_def token_response_def int_to_float_def
          round_double_numeral)
  have miss: "\<not> cache_valid (cache ?w1) 1001"
    by (simp add: cache_valid_def)
  have second: "get_access_token empty_token_post 1001 ?w1 =
      (Inr (PyStr []),
       \<lparr>cache = \<lparr>token = PyStr [], expires_at = Finite 4601\<rparr>, calls = Suc (calls ?w1)\<rparr>)"
    by (rule refresh_success [OF miss, where kvs = ?kvs and expires_in = "PyInt 3600"
          and resp = ?resp])
       (simp_all add: empty_token_post_def token_response_def int_to_float_def
          round_double_numeral)
  show ?thesis
    by (simp add: first second round_double_numeral) (simp add: initial_world_def)
qed

text \<open>
  Claim C3, amended: a first call that misses the cache and fetches a non-empty token,
  followed by any number of calls at times that the test of line 27 places before the
  stored expiry minus 300 seconds, issues exactly one request in all, and each of the
  \<open>N = Suc (length ts)\<close> calls returns that token.
\<close>

theorem repeated_reads_one_call:
  assumes "\<not> cache_valid (cache w) t"
    and "post (calls w) = Inr resp"
    and "response_json resp = Inr (PyDict kvs)"
    and "map_of kvs ''access_token'' = Some tok"
    and "truthy tok"
    and "dict_get (PyDict kvs) ''expires_in'' (PyInt 3600) = Inr expires_in"
    and "float_add t expires_in = Inr texp"
    and "\<forall>t' \<in> set ts. float_less (Finite t') (float_minus texp (Finite 300))"
  shows "get_access_tokens post (t # ts) w =
     (replicate (Suc (length ts)) (Inr tok),
      \<lparr>cache = \<lparr>token = tok, expires_at = texp\<rparr>, calls = Suc (calls w)\<rparr>)"
proof -
  let ?w' = "\<lparr>cache = \<lparr>token = tok, expires_at = texp\<rparr>, calls = Suc (calls w)\<rparr>"
  have first: "get_access_token post t w = (Inr tok, ?w')"
    using assms(1-4,6,7) by (rule refresh_success)
  have rest: "get_access_tokens post ts ?w' = (replicate (length ts) (Inr (token (cache ?w'))), ?w')"
    by (rule hits_only) (use assms(5,8) in simp_all)
  show ?thesis
    by (simp add: first rest)
qed

text \<open>The amended C3 at four calls on the initial world, the last one second inside the window.\<close>

theorem repeated_reads_one_call_witness:
  "get_access_tokens example_post [1000, 1001, 2500, 4299] initial_world =
     (replicate 4 (Inr (PyStr ''tok-A'')), fetched_world)
   \<and> calls fetched_world = Suc (calls initial_world)"
proof -
  have "get_access_tokens example_post (1000 # [1001, 2500, 4299]) initial_world =
     (replicate (Suc (length [1001, 2500, 4299 :: real])) (Inr (PyStr ''tok-A'')),
      \<lparr>cache = \<lparr>token = PyStr ''tok-A'', expires_at = Finite 4600\<rparr>,
       calls = Suc (calls initial_world)\<rparr>)"
    by (rule repeated_reads_one_call [OF initial_miss, where kvs =
          "[(''access_token'', PyStr ''tok-A''), (''expires_in'', PyInt 3600)]"
          and expires_in = "PyInt 3600" and resp = "\<lparr>status_code = 200, response_json =
            Inr (PyDict [(''access_token'', PyStr ''tok-A''), (''expires_in'', PyInt 3600)])\<rparr>"])
       (simp_all add: example_post_def token_response_def int_to_float_def round_double_numeral)
  then show ?thesis
    by (simp add: fetched_world_def initial_world_def numeral_eq_Suc)
qed

section \<open>The token cache: failures of a refresh\<close>

lemma int_to_float_huge: "int_to_float (2 ^ 1024) = Inl OverflowError"
  by (rule int_to_float_overflow) (simp add: max_exp_def)

text \<open>
  Claim C5 as written: a refresh fails with \<^verbatim>\<open>AuthError\<close> when the endpoint is
  unreachable, answers a non-success response, or sends a body without an access token.
  The code raises no such error: a 400 answer whose body has no \<^verbatim>\<open>access_token\<close> ends
  in \<^verbatim>\<open>KeyError\<close>, an unreachable endpoint in the HTTP library's own fault.
\<close>

theorem token_faults_counterexample:
  "fst (get_access_token error_body_post 1000 initial_world) = Inl (KeyError ''access_token'')
   \<and> exn_class (KeyError ''access_token'') \<noteq> ''AuthError''
   \<and> fst (get_access_token unreachable_post 1000 initial_world)
       = Inl (Raised (Fault ''ConnectionError'' ''connection refused''))
   \<and> exn_class (Raised (Fault ''ConnectionError'' ''connection refused'')) \<noteq> ''AuthError''"
  by (simp add: get_access_token_def initial_miss error_body_post_def unreachable_post_def)

text \<open>
  Claim C5, amended: on a cache miss the fault of the HTTP call and the fault of
  \<^verbatim>\<open>response.json()\<close> leave \<^verbatim>\<open>_get_access_token\<close> as they are, and a JSON object
  without \<^verbatim>\<open>access_token\<close> raises \<^verbatim>\<open>KeyError('access_token')\<close>. A JSON object with
  \<^verbatim>\<open>access_token\<close> returns the token when the addition of line 47 accepts
  \<^verbatim>\<open>expires_in\<close> (absent, a float, a bool, or an \<^verbatim>\<open>int\<close> within the range of a double),
  and raises the error of that addition otherwise. The status code appears in no
  hypothesis: the code never reads it.
\<close>

theorem token_faults_propagate:
  assumes "\<not> cache_valid (cache w) t"
  shows "(post (calls w) = Inl f \<longrightarrow> fst (get_access_token post t w) = Inl (Raised f))
    \<and> (post (calls w) = Inr resp \<and> response_json resp = Inl f
         \<longrightarrow> fst (get_access_token post t w) = Inl (Raised f))
    \<and> (post (calls w) = Inr resp \<and> response_json resp = Inr (PyDict kvs)
         \<and> map_of kvs ''access_token'' = None
         \<longrightarrow> fst (get_access_token post t w) = Inl (KeyError ''access_token''))
    \<and> (post (calls w) = Inr resp \<and> response_json resp = Inr (PyDict kvs)
         \<and> map_of kvs ''access_token'' = Some tok
         \<and> dict_get (PyDict kvs) ''expires_in'' (PyInt 3600) = Inr expires_in
         \<and> float_add t expires_in = Inr texp
         \<longrightarrow> fst (get_access_token post t w) = Inr tok)
    \<and> (post (calls w) = Inr resp \<and> response_json resp = Inr (PyDict kvs)
         \<and> map_of kvs ''access_token'' = Some tok
         \<and> dict_get (PyDict kvs) ''expires_in'' (PyInt 3600) = Inr expires_in
         \<and> float_add t expires_in = Inl e
         \<longrightarrow> fst (get_access_token post t w) = Inl e)"
proof (intro conjI impI)
  assume "post (calls w) = Inl f"
  with assms show "fst (get_access_token post t w) = Inl (Raised f)"
    by (simp add: get_access_token_def Let_def)
next
  assume "post (calls w) = Inr resp \<and> response_json resp = Inl f"
  with assms show "fst (get_access_token post t w) = Inl (Raised f)"
    by (simp add: get_access_token_def Let_def)
next
  assume "post (calls w) = Inr resp \<and> response_json resp = Inr (PyDict kvs)
         \<and> map_of kvs ''access_token'' = None"
  with assms show "fst (get_access_token post t w) = Inl (KeyError ''access_token'')"
    by (simp add: get_access_token_def Let_def)
next
  assume "post (calls w) = Inr resp \<and> response_json resp = Inr (PyDict kvs)
         \<and> map_of kvs ''access_token'' = Some tok
         \<and> dict_get (PyDict kvs) ''expires_in'' (PyInt 3600) = Inr expires_in
         \<and> float_add t expires_in = Inr texp"
  with assms show "fst (get_access_token post t w) = Inr tok"
    by (simp add: refresh_success)
next
  assume "post (calls w) = Inr resp \<and> response_json resp = Inr (PyDict kvs)
         \<and> map_of kvs ''access_token'' = Some tok
         \<and> dict_get (PyDict kvs) ''expires_in'' (PyInt 3600) = Inr expires_in
         \<and> float_add t expires_in = Inl e"
  with assms show "fst (get_access_token post t w) = Inl e"
    by (simp add: get_access_token_def Let_def split: option.splits)
qed

text \<open>
  The amended C5 at an unreachable endpoint, a non-JSON body, an error body, a token, and a
  token whose \<^verbatim>\<open>expires_in\<close> is \<open>2 ^ 1024\<close>.
\<close>

theorem token_faults_propagate_witness:
  "fst (get_access_token unreachable_post 1000 initial_world)
       = Inl (Raised (Fault ''ConnectionError'' ''connection refused''))
   \<and> fst (get_access_token not_json_post 1000 initial_world)
       = Inl (Raised (Fault ''JSONDecodeError'' ''Expecting value''))
   \<and> fst (get_access_token error_body_post 1000 initial_world)
       = Inl (KeyError ''access_token'')
   \<and> fst (get_access_token example_post 1000 initial_world) = Inr (PyStr ''tok-A'')
   \<and> fst (get_access_token huge_expiry_post 1000 initial_world) = Inl OverflowError"
proof -
  have a: "fst (get_access_token unreachable_post 1000 initial_world)
       = Inl (Raised (Fault ''ConnectionError'' ''connection refused''))"
    using token_faults_propagate [OF initial_miss, of unreachable_post
        "Fault ''ConnectionError'' ''connection refused''" 1000]
    by (simp add: unreachable_post_def)
  have b: "fst (get_access_token not_json_post 1000 initial_world)
       = Inl (Raised (Fault ''JSONDecodeError'' ''Expecting value''))"
    using token_faults_propagate [OF initial_miss, of not_json_post
        "Fault ''JSONDecodeError'' ''Expecting value''" 1000
        "\<lparr>status_code = 502, response_json = Inl (Fault ''JSONDecodeError'' ''Expecting value'')\<rparr>"]
    by (simp add: not_json_post_def)
  have c: "fst (get_access_token error_body_post 1000 initial_world)
       = Inl (KeyError ''access_token'')"
    using token_faults_propagate [OF initial_miss, of error_body_post _ 1000
        "\<lparr>status_code = 400, response_json = Inr (PyDict [(''error'', PyStr ''invalid_client'')])\<rparr>"
        "[(''error'', PyStr ''invalid_client'')]"]
    by (simp add: error_body_post_def)
  have d: "fst (get_access_token example_post 1000 initial_world) = Inr (PyStr ''tok-A'')"
    using token_faults_propagate [OF initial_miss, of example_post _ 1000
        "\<lparr>status_code = 200, response_json = Inr (PyDict [(''access_token'', PyStr ''tok-A''), (''expires_in'', PyInt 3600)])\<rparr>"
        "[(''access_token'', PyStr ''tok-A''), (''expires_in'', PyInt 3600)]"
        "PyStr ''tok-A''" "PyInt 3600" "Finite 4600"]
    by (simp add: example_post_def token_response_def int_to_float_def round_double_numeral)
  have e: "fst (get_access_token huge_expiry_post 1000 initial_world) = Inl OverflowError"
    using token_faults_propagate [OF initial_miss, of huge_expiry_post _ 1000
        "\<lparr>status_code = 200, response_json = Inr (PyDict [(''access_token'', PyStr ''tok-B''), (''expires_in'', PyInt (2 ^ 1024))])\<rparr>"
        "[(''access_token'', PyStr ''tok-B''), (''expires_in'', PyInt (2 ^ 1024))]"
        "PyStr ''tok-B''" "PyInt (2 ^ 1024)" _ OverflowError]
      int_to_float_huge
    by (simp add: huge_expiry_post_def token_response_def del: power_numeral)
  from a b c d e show ?thesis by simp
qed



text \<open>
  Claim C9: when a refresh fails because the HTTP call raises, because the body is not
  JSON, or because \<^verbatim>\<open>token_data["access_token"]\<close> raises, the call ends in an
  exception and both fields of the cache are what they were.
\<close>

theorem failed_refresh_keeps_cache:
  assumes "\<not> cache_valid (cache w) t"
    and "post (calls w) = Inl f
       \<or> post (calls w) = Inr resp \<and> response_json resp = Inl f
       \<or> post (calls w) = Inr resp \<and> response_json resp = Inr token_data
           \<and> subscript token_data ''access_token'' = Inl e"
  shows "isl (fst (get_access_token post t w))
     \<and> cache (snd (get_access_token post t w)) = cache w"
  using assms by (auto simp add: get_access_token_def Let_def)

text \<open>Claim C9 on a world with an expired cached token, at each of the three failures.\<close>

theorem failed_refresh_keeps_cache_witness:
  "isl (fst (get_access_token unreachable_post 5000 fetched_world))
   \<and> cache (snd (get_access_token unreachable_post 5000 fetched_world)) = cache fetched_world
   \<and> isl (fst (get_access_token not_json_post 5000 fetched_world))
   \<and> cache (snd (get_access_token not_json_post 5000 fetched_world)) = cache fetched_world
   \<and> isl (fst (get_access_token error_body_post 5000 fetched_world))
   \<and> cache (snd (get_access_token error_body_post 5000 fetched_world)) = cache fetched_world"
proof -
  have miss: "\<not> cache_valid (cache fetched_world) 5000"
    by (simp add: fetched_valid)
  note a = failed_refresh_keeps_cache [OF miss, of unreachable_post
        "Fault ''ConnectionError'' ''connection refused''"]
  note b = failed_refresh_keeps_cache [OF miss, of not_json_post
        "Fault ''JSONDecodeError'' ''Expecting value''"
        "\<lparr>status_code = 502, response_json = Inl (Fault ''JSONDecodeError'' ''Expecting value'')\<rparr>"]
  note c = failed_refresh_keeps_cache [OF miss, of error_body_post _
        "\<lparr>status_code = 400, response_json = Inr (PyDict [(''error'', PyStr ''invalid_client'')])\<rparr>"
        "PyDict [(''error'', PyStr ''invalid_client'')]" "KeyError ''access_token''"]
  from a b c show ?thesis
    by (simp add: unreachable_post_def not_json_post_def error_body_post_def)
qed

text \<open>
  A refresh that fails in the addition of line 47, on a text or on an \<^verbatim>\<open>int\<close> beyond the
  doubles, has already stored the new token beside the old expiry.
\<close>

lemma half_written_refresh:
  "get_access_token text_expiry_post 5000 fetched_world =
     (Inl TypeError,
      \<lparr>cache = \<lparr>token = PyStr ''tok-B'', expires_at = Finite 4600\<rparr>, calls = 2\<rparr>)
   \<and> get_access_token huge_expiry_post 5000 fetched_world =
     (Inl OverflowError,
      \<lparr>cache = \<lparr>token = PyStr ''tok-B'', expires_at = Finite 4600\<rparr>, calls = 2\<rparr>)"
  using int_to_float_huge
  by (simp add: get_access_token_def fetched_valid text_expiry_post_def huge_expiry_post_def
      token_response_def del: power_numeral)
     (simp add: fetched_world_def)

text \<open>
  Beyond \<open>2 ^ 53\<close> the doubles are two apart: a token fetched at time \<open>2 ^ 53\<close> with a
  lifetime of 301 seconds gets the expiry \<open>2 ^ 53 + 300\<close>, and a second call at the same
  time is a miss.
\<close>

lemma round_double_2_53: "round_double (2 ^ 53) = Finite (2 ^ 53)"
proof -
  have bl: "bitlen (2 ^ 53) = mantissa_bits + int 1"
    using bitlen_twopow_add_eq [of 0 53] by (simp add: mantissa_bits_def)
  have pos: "(0::int) < 2 ^ 53" by simp
  have rh: "round_half_even 4503599627370496 = 4503599627370496"
    using round_half_even_of_int [of 4503599627370496] by simp
  from round_double_pos_int [OF pos bl] rh show ?thesis
    by (simp add: max_exp_def)
qed

lemma round_double_2_53_301: "round_double (2 ^ 53 + 301) = Finite (2 ^ 53 + 300)"
proof -
  have bl: "bitlen (2 ^ 53 + 301) = mantissa_bits + int 1"
    using bitlen_twopow_add_eq [of 301 53] by (simp add: mantissa_bits_def)
  have rh: "round_half_even (9007199254741293 / 2) = 4503599627370646"
    by (simp add: round_half_even_def Let_def)
  have pos: "(0::int) < 2 ^ 53 + 301" by simp
  from round_double_pos_int [OF pos bl] rh show ?thesis
    by (simp add: max_exp_def)
qed

lemma rounding_beyond_2_53:
  "get_access_tokens short_expiry_post [2 ^ 53, 2 ^ 53 + 301 - 301] initial_world =
     ([Inr (PyStr ''tok-A''), Inr (PyStr ''tok-A'')],
      \<lparr>cache = \<lparr>token = PyStr ''tok-A'', expires_at = Finite (2 ^ 53 + 300)\<rparr>, calls = 2\<rparr>)"
proof -
  let ?kvs = "[(''access_token'', PyStr ''tok-A''), (''expires_in'', PyInt 301)]"
  let ?resp = "\<lparr>status_code = 200, response_json = Inr (PyDict ?kvs)\<rparr>"
  let ?w1 = "\<lparr>cache = \<lparr>token = PyStr ''tok-A'', expires_at = Finite (2 ^ 53 + 300)\<rparr>,
              calls = Suc (calls initial_world)\<rparr>"
  have add: "float_add 9007199254740992 (PyInt 301) = Inr (Finite 9007199254741292)"
    using round_double_2_53_301 by (simp add: int_to_float_def round_double_numeral)
  have first: "get_access_token short_expiry_post (2 ^ 53) initial_world
      = (Inr (PyStr ''tok-A''), ?w1)"
    by (rule refresh_success [OF initial_miss, where kvs = ?kvs and expires_in = "PyInt 301"
          and resp = ?resp])
       (simp_all add: short_expiry_post_def token_response_def add del: float_add.simps)
  have miss: "\<not> cache_valid (cache ?w1) (2 ^ 53)"
    using round_double_2_53 by (simp add: cache_valid_def)
  have second: "get_access_token short_expiry_post (2 ^ 53) ?w1 =
      (Inr (PyStr ''tok-A''),
       \<lparr>cache = \<lparr>token = PyStr ''tok-A'', expires_at = Finite (2 ^ 53 + 300)\<rparr>,
        calls = Suc (calls ?w1)\<rparr>)"
    by (rule refresh_success [OF miss, where kvs = ?kvs and expires_in = "PyInt 301"
          and resp = ?resp])
       (simp_all add: short_expiry_post_def token_response_def add del: float_add.simps)
  have "get_access_tokens short_expiry_post [2 ^ 53, 2 ^ 53] initial_world =
     ([Inr (PyStr ''tok-A''), Inr (PyStr ''tok-A'')],
      \<lparr>cache = \<lparr>token = PyStr ''tok-A'', expires_at = Finite (2 ^ 53 + 300)\<rparr>, calls = 2\<rparr>)"
    using first second by (simp add: initial_world_def)
  then show ?thesis by simp
qed

section \<open>The gateway client\<close>

text \<open>
  Claim C7: with \<^verbatim>\<open>GATEWAY_URL\<close> unset and \<^verbatim>\<open>LOCAL_DEV\<close> other than \<^verbatim>\<open>"1"\<close>, building
  the module's gateway client raises the \<^verbatim>\<open>RuntimeError\<close> of line 58 and leaves the
  world untouched: no request to the token endpoint has been issued.
\<close>

theorem missing_gateway_url_before_token:
  assumes "environ ''GATEWAY_URL'' = None"
    and "environ ''LOCAL_DEV'' \<noteq> Some ''1''"
  shows "strands_mcp_client str_of environ post now w = (Inl missing_gateway_url, w)
     \<and> get_streamable_http_mcp_client str_of environ post now w = (Inl missing_gateway_url, w)
     \<and> calls (snd (strands_mcp_client str_of environ post now w)) = calls w"
  using assms by (simp add: strands_mcp_client_def get_streamable_http_mcp_client_def)

text \<open>Claim C7 at the empty environment.\<close>

theorem missing_gateway_url_before_token_witness:
  "strands_mcp_client strings_only Map.empty example_post 1000 initial_world
     = (Inl (RuntimeError ''Missing required environment variable: GATEWAY_URL''), initial_world)
   \<and> calls (snd (strands_mcp_client strings_only Map.empty example_post 1000 initial_world)) = 0"
  using missing_gateway_url_before_token [of Map.empty strings_only example_post 1000 initial_world]
  by (simp add: missing_gateway_url_def initial_world_def)

lemma client_construction:
  assumes "get_streamable_http_mcp_client str_of environ post now w = (Inr client, w')"
  shows "\<exists>tok gateway_url. get_access_token post now w = (Inr tok, w')
     \<and> client = MCPClient (\<lambda>later. streamablehttp_client gateway_url
          [(''Authorization'', ''Bearer '' @ format_value str_of tok)])"
  using assms
  by (auto simp add: get_streamable_http_mcp_client_def
      split: option.splits if_splits prod.splits sum.splits)

text \<open>
  Claim C10: when the module builds a gateway client, the token is the result of the one
  \<^verbatim>\<open>_get_access_token\<close> call made at construction, and whenever the client opens its
  transport, in any later world, the \<^verbatim>\<open>Authorization\<close> header is \<^verbatim>\<open>Bearer\<close> followed
  by that token; listing the gateway tools meets the same transport every time.
\<close>

theorem bearer_fixed_at_construction:
  assumes "strands_mcp_client str_of environ post now w = (Inr (Gateway client), w')"
  shows "\<exists>tok. get_access_token post now w = (Inr tok, w')
     \<and> (\<forall>later. headers (open_transport client later)
           = [(''Authorization'', ''Bearer '' @ format_value str_of tok)])
     \<and> (\<forall>b later. gateway_tools b (Gateway client) later = gateway_tools b (Gateway client) w')"
proof -
  from assms have "get_streamable_http_mcp_client str_of environ post now w = (Inr client, w')"
    by (auto simp add: strands_mcp_client_def split: if_splits prod.splits sum.splits)
  then obtain tok gateway_url where
    tok: "get_access_token post now w = (Inr tok, w')" and
    client: "client = MCPClient (\<lambda>later. streamablehttp_client gateway_url
          [(''Authorization'', ''Bearer '' @ format_value str_of tok)])"
    using client_construction by blast
  have "\<forall>later. headers (open_transport client later)
           = [(''Authorization'', ''Bearer '' @ format_value str_of tok)]"
    by (simp add: client streamablehttp_client_def)
  moreover have "\<forall>b later. gateway_tools b (Gateway client) later
       = gateway_tools b (Gateway client) w'"
    by (simp add: client)
  ultimately show ?thesis using tok by blast
qed

lemma rotating_fetch:
  "get_access_token rotating_post 1000 initial_world = (Inr (PyStr ''tok-A''), fetched_world)"
proof -
  have "get_access_token rotating_post 1000 initial_world =
      (Inr (PyStr ''tok-A''),
       \<lparr>cache = \<lparr>token = PyStr ''tok-A'', expires_at = Finite 4600\<rparr>,
        calls = Suc (calls initial_world)\<rparr>)"
    by (rule refresh_success [OF initial_miss, where kvs =
          "[(''access_token'', PyStr ''tok-A''), (''expires_in'', PyInt 3600)]"
          and expires_in = "PyInt 3600" and resp = "\<lparr>status_code = 200, response_json =
            Inr (PyDict [(''access_token'', PyStr ''tok-A''), (''expires_in'', PyInt 3600)])\<rparr>"])
       (simp_all add: rotating_post_def token_response_def initial_world_def int_to_float_def
          round_double_numeral)
  then show ?thesis by (simp add: fetched_world_def initial_world_def)
qed

lemma rotating_refresh:
  "get_access_token rotating_post 5000 fetched_world =
     (Inr (PyStr ''tok-B''),
      \<lparr>cache = \<lparr>token = PyStr ''tok-B'', expires_at = Finite 8600\<rparr>, calls = 2\<rparr>)"
proof -
  have miss: "\<not> cache_valid (cache fetched_world) 5000"
    by (simp add: fetched_valid)
  have "get_access_token rotating_post 5000 fetched_world =
      (Inr (PyStr ''tok-B''),
       \<lparr>cache = \<lparr>token = PyStr ''tok-B'', expires_at = Finite 8600\<rparr>,
        calls = Suc (calls fetched_world)\<rparr>)"
    by (rule refresh_success [OF miss, where kvs =
          "[(''access_token'', PyStr ''tok-B''), (''expires_in'', PyInt 3600)]"
          and expires_in = "PyInt 3600" and resp = "\<lparr>status_code = 200, response_json =
            Inr (PyDict [(''access_token'', PyStr ''tok-B''), (''expires_in'', PyInt 3600)])\<rparr>"])
       (simp_all add: rotating_post_def token_response_def fetched_world_def int_to_float_def
          round_double_numeral)
  then show ?thesis by (simp add: fetched_world_def)
qed

lemma example_construction:
  "strands_mcp_client strings_only gateway_environ rotating_post 1000 initial_world
     = (Inr (Gateway example_client), fetched_world)"
  by (simp add: strands_mcp_client_def get_streamable_http_mcp_client_def gateway_environ_def
      rotating_fetch example_client_def)

text \<open>
  Claim C10 at a client built at time 1000 with the token \<^verbatim>\<open>tok-A\<close>: after a refresh at
  time 5000 has put \<^verbatim>\<open>tok-B\<close> into the cache, the client still sends \<^verbatim>\<open>tok-A\<close>.
\<close>

theorem bearer_fixed_at_construction_witness:
  "strands_mcp_client strings_only gateway_environ rotating_post 1000 initial_world
     = (Inr (Gateway example_client), fetched_world)
   \<and> token (cache (snd (get_access_token rotating_post 5000 fetched_world))) = PyStr ''tok-B''
   \<and> headers (open_transport example_client (snd (get_access_token rotating_post 5000 fetched_world)))
       = [(''Authorization'', ''Bearer tok-A'')]"
proof -
  from bearer_fixed_at_construction [OF example_construction]
  have "headers (open_transport example_client (snd (get_access_token rotating_post 5000 fetched_world)))
       = [(''Authorization'', ''Bearer tok-A'')]"
    by (auto simp add: rotating_fetch)
  then show ?thesis
    by (simp add: example_construction rotating_refresh)
qed

section \<open>The streaming loop and the handler\<close>

text \<open>The loop yields the text fragments of the events, in order, after what it was given.\<close>

lemma async_for_text_fragments:
  "async_for events fin ys =
     ((case fin of StopAsyncIteration \<Rightarrow> None | Raise e \<Rightarrow> Some e), ys @ text_fragments events)"
proof (induction events arbitrary: ys)
  case Nil
  show ?case by (cases fin) (simp_all add: text_fragments_def)
next
  case (Cons event events)
  show ?case
    by (simp add: Cons.IH text_fragments_def is_text_fragment_def fragment_text_def
        split: option.splits event_value.splits)
qed

text \<open>
  Claim C1 as written: whatever the pull raises is turned into the error fragment and
  nothing leaves the handler. The \<^verbatim>\<open>except\<close> clause names \<^verbatim>\<open>Exception\<close>: when the pull
  raises \<^verbatim>\<open>asyncio.CancelledError\<close> after four events, the two text fragments stay
  yielded, no error fragment follows, nothing is logged, and the exception leaves the
  handler.
\<close>

theorem stream_fault_counterexample:
  "stream_response (example_events, Raise (BaseExceptionOnly ''CancelledError''))
       \<lparr>logged = [], yielded = [], raised = None\<rparr>
     = \<lparr>logged = [], yielded = [''Hel'', ''lo''],
        raised = Some (BaseExceptionOnly ''CancelledError'')\<rparr>"
  by (simp add: stream_response_def async_for_text_fragments text_fragments_def
      is_text_fragment_def fragment_text_def example_events_def)

text \<open>
  Claim C1, amended: when the pull after the events \<open>events\<close> raises an instance \<open>e\<close> of
  \<^verbatim>\<open>Exception\<close>, the handler has yielded the text fragments of \<open>events\<close> (\<open>k\<close> of them),
  then the one fragment \<^verbatim>\<open>"I encountered an error: "\<close> followed by \<^verbatim>\<open>str(e)\<close>, and
  nothing else; the fault is logged once and none leaves the \<^verbatim>\<open>try\<close> block. When the
  pull raises an exception \<open>c\<close> outside \<^verbatim>\<open>Exception\<close>, the fragments stay yielded,
  nothing is added or logged, and \<open>c\<close> leaves the handler. The handler enters the block
  with nothing yielded and nothing raised.
\<close>

theorem stream_fault_terminal_fragment:
  "stream_response (events, Raise (ExceptionInstance e)) out =
     out\<lparr>logged := logged out @ [LogError (''Error during streaming: '' @ fault_str e)],
         yielded := yielded out @ text_fragments events
                      @ [''I encountered an error: '' @ fault_str e]\<rparr>
   \<and> raised (stream_response (events, Raise (ExceptionInstance e)) out) = raised out
   \<and> stream_response (events, Raise (BaseExceptionOnly c)) out =
     out\<lparr>yielded := yielded out @ text_fragments events,
         raised := Some (BaseExceptionOnly c)\<rparr>"
  by (simp add: stream_response_def async_for_text_fragments)

text \<open>The amended C1 at four events, two of them text, and an exception after the fourth.\<close>

theorem stream_fault_terminal_fragment_witness:
  "stream_response
       (example_events, Raise (ExceptionInstance (Fault ''ModelError'' ''throttled'')))
       \<lparr>logged = [], yielded = [], raised = None\<rparr>
     = \<lparr>logged = [LogError ''Error during streaming: throttled''],
        yielded = [''Hel'', ''lo'', ''I encountered an error: throttled''],
        raised = None\<rparr>
   \<and> yielded (stream_response (example_events, Raise (BaseExceptionOnly ''CancelledError''))
       \<lparr>logged = [], yielded = [], raised = None\<rparr>) = [''Hel'', ''lo'']"
  using stream_fault_terminal_fragment [of example_events "Fault ''ModelError'' ''throttled''"
      "\<lparr>logged = [], yielded = [], raised = None\<rparr>" "''CancelledError''"]
  by (simp add: text_fragments_def is_text_fragment_def fragment_text_def example_events_def)

text \<open>
  Claim C4: when the stream ends without a fault, what the handler yields is the sequence
  of text fragments of the events, and nothing is logged or raised; over events that all
  are text fragments it is their payloads, element for element.
\<close>

theorem stream_no_fault_exact:
  "stream_response (events, StopAsyncIteration) out
     = out\<lparr>yielded := yielded out @ text_fragments events\<rparr>
   \<and> ((\<forall>ev \<in> set events. is_text_fragment ev) \<longrightarrow>
        yielded (stream_response (events, StopAsyncIteration) out)
          = yielded out @ map fragment_text events)"
  by (simp add: stream_response_def async_for_text_fragments text_fragments_def)

text \<open>Claim C4 at a stream of two text fragments and at the mixed stream.\<close>

theorem stream_no_fault_exact_witness:
  "yielded (stream_response ([[''data'' \<mapsto> Str ''Hel''], [''data'' \<mapsto> Str ''lo'']], StopAsyncIteration)
       \<lparr>logged = [], yielded = [], raised = None\<rparr>) = [''Hel'', ''lo'']
   \<and> stream_response (example_events, StopAsyncIteration)
       \<lparr>logged = [], yielded = [], raised = None\<rparr>
       = \<lparr>logged = [], yielded = [''Hel'', ''lo''], raised = None\<rparr>"
  using stream_no_fault_exact [of "[[''data'' \<mapsto> Str ''Hel''], [''data'' \<mapsto> Str ''lo'']]"
      "\<lparr>logged = [], yielded = [], raised = None\<rparr>"]
    stream_no_fault_exact [of example_events "\<lparr>logged = [], yielded = [], raised = None\<rparr>"]
  by (simp add: text_fragments_def is_text_fragment_def fragment_text_def example_events_def)

lemma stream_response_raised:
  "raised (stream_response (events, fin) out) =
     (case fin of
        StopAsyncIteration \<Rightarrow> raised out
      | Raise (ExceptionInstance e) \<Rightarrow> raised out
      | Raise (BaseExceptionOnly c) \<Rightarrow> Some (BaseExceptionOnly c))"
  by (simp add: stream_response_def async_for_text_fragments
      split: stream_end.splits py_exception.splits)

lemma run_agent_raised:
  "raised (run_agent b REGION client w sid prompt sm lg)
     = raised (run_agent b REGION client w sid prompt sm [])"
proof -
  have "raised (stream_response stream \<lparr>logged = lg, yielded = [], raised = None\<rparr>)
      = raised (stream_response stream \<lparr>logged = [], yielded = [], raised = None\<rparr>)"
    for stream
    by (cases stream)
       (simp add: stream_response_raised split: stream_end.splits py_exception.splits)
  then show ?thesis
    by (simp add: run_agent_def Let_def split: sum.splits option.splits)
qed

text \<open>
  Claim C8: when \<^verbatim>\<open>MEMORY_ID\<close> is unset or empty, and when the constructor of the memory
  session manager raises \<open>e\<close>, the handler is the rest of the request run with no session
  manager, after the log line of entry and a warning (in the first case) or the two error
  lines (in the second). The fault that leaves the handler, if any, is the one the rest of
  the request raises on its own.
\<close>

theorem handler_without_memory:
  assumes "MEMORY_ID = None \<or> MEMORY_ID = Some []
       \<or> MEMORY_ID = Some mid \<and> mid \<noteq> []
           \<and> memory_init b (memory_config_of b mid (resolve_session_id context_session_id payload)
                 (resolve_actor_id payload)) REGION = Some e"
  shows "invoke b MEMORY_ID REGION client w payload context_session_id =
       run_agent b REGION client w (resolve_session_id context_session_id payload)
         (case payload ''prompt'' of None \<Rightarrow> PyNone | Some v \<Rightarrow> v)
         None
         ([LogInfo (''Invoke called with session_id: ''
              @ format_value (py_str b) (resolve_session_id context_session_id payload)
              @ '', actor_id: '' @ format_value (py_str b) (resolve_actor_id payload))]
          @ (if MEMORY_ID = None \<or> MEMORY_ID = Some [] then
               [LogWarning ''MEMORY_ID is not set. Skipping memory session manager initialization.'']
             else
               [LogError (''Failed to initialize memory session manager: '' @ fault_str e),
                LogError (format_exc b e)]))
     \<and> raised (invoke b MEMORY_ID REGION client w payload context_session_id)
         = raised (run_agent b REGION client w (resolve_session_id context_session_id payload)
             (case payload ''prompt'' of None \<Rightarrow> PyNone | Some v \<Rightarrow> v) None [])"
proof -
  let ?sid = "resolve_session_id context_session_id payload"
  let ?aid = "resolve_actor_id payload"
  have mem: "configure_memory b MEMORY_ID REGION ?sid ?aid =
      (None,
       if MEMORY_ID = None \<or> MEMORY_ID = Some [] then
         [LogWarning ''MEMORY_ID is not set. Skipping memory session manager initialization.'']
       else
         [LogError (''Failed to initialize memory session manager: '' @ fault_str e),
          LogError (format_exc b e)])"
    using assms by (auto simp add: configure_memory_def)
  have inv: "invoke b MEMORY_ID REGION client w payload context_session_id =
       run_agent b REGION client w ?sid
         (case payload ''prompt'' of None \<Rightarrow> PyNone | Some v \<Rightarrow> v)
         None
         ([LogInfo (''Invoke called with session_id: '' @ format_value (py_str b) ?sid
              @ '', actor_id: '' @ format_value (py_str b) ?aid)]
          @ (if MEMORY_ID = None \<or> MEMORY_ID = Some [] then
               [LogWarning ''MEMORY_ID is not set. Skipping memory session manager initialization.'']
             else
               [LogError (''Failed to initialize memory session manager: '' @ fault_str e),
                LogError (format_exc b e)]))"
    unfolding invoke_def Let_def mem by simp
  show ?thesis
    unfolding inv using run_agent_raised by blast
qed

lemma example_run:
  "run_agent example_backend (Some ''us-east-1'') LocalDummy initial_world (PyStr ''s-1'')
      (PyStr ''hi'') None lg
     = \<lparr>logged = lg, yielded = [''Hel'', ''lo''], raised = None\<rparr>"
  by (simp add: run_agent_def example_backend_def stream_response_def async_for_text_fragments
      text_fragments_def is_text_fragment_def fragment_text_def example_events_def)

text \<open>Claim C8 at a request without \<^verbatim>\<open>MEMORY_ID\<close> and at one whose memory service fails.\<close>

theorem handler_without_memory_witness:
  "invoke example_backend None (Some ''us-east-1'') LocalDummy initial_world example_payload
       (PyStr ''s-1'')
     = \<lparr>logged =
          [LogInfo ''Invoke called with session_id: s-1, actor_id: u-1'',
           LogWarning ''MEMORY_ID is not set. Skipping memory session manager initialization.''],
        yielded = [''Hel'', ''lo''], raised = None\<rparr>
   \<and> invoke example_backend (Some ''mem-1'') (Some ''us-east-1'') LocalDummy initial_world
       example_payload (PyStr ''s-1'')
     = \<lparr>logged =
          [LogInfo ''Invoke called with session_id: s-1, actor_id: u-1'',
           LogError ''Failed to initialize memory session manager: memory not found'',
           LogError ''Traceback (most recent call last): memory not found''],
        yielded = [''Hel'', ''lo''], raised = None\<rparr>"
proof -
  have sid: "resolve_session_id (PyStr ''s-1'') example_payload = PyStr ''s-1''"
    by (simp add: resolve_session_id_def)
  have aid: "resolve_actor_id example_payload = PyStr ''u-1''"
    by (simp add: resolve_actor_id_def example_payload_def)
  have prompt: "(case example_payload ''prompt'' of None \<Rightarrow> PyNone | Some v \<Rightarrow> v) = PyStr ''hi''"
    by (simp add: example_payload_def)
  have fails: "memory_init example_backend
       (memory_config_of example_backend ''mem-1'' (PyStr ''s-1'') (PyStr ''u-1''))
       (Some ''us-east-1'') = Some (Fault ''ClientError'' ''memory not found'')"
    by (simp add: example_backend_def)
  have absent: "invoke example_backend None (Some ''us-east-1'') LocalDummy initial_world
       example_payload (PyStr ''s-1'')
     = \<lparr>logged =
          [LogInfo ''Invoke called with session_id: s-1, actor_id: u-1'',
           LogWarning ''MEMORY_ID is not set. Skipping memory session manager initialization.''],
        yielded = [''Hel'', ''lo''], raised = None\<rparr>"
    using handler_without_memory [of None _ example_backend "PyStr ''s-1''" example_payload
        "Some ''us-east-1''" _ LocalDummy initial_world]
    by (simp add: sid aid prompt example_run)
  have failing: "invoke example_backend (Some ''mem-1'') (Some ''us-east-1'') LocalDummy
       initial_world example_payload (PyStr ''s-1'')
     = \<lparr>logged =
          [LogInfo ''Invoke called with session_id: s-1, actor_id: u-1'',
           LogError ''Failed to initialize memory session manager: memory not found'',
           LogError ''Traceback (most recent call last): memory not found''],
        yielded = [''Hel'', ''lo''], raised = None\<rparr>"
    using handler_without_memory [of "Some ''mem-1''" "''mem-1''" example_backend
        "PyStr ''s-1''" example_payload "Some ''us-east-1''"
        "Fault ''ClientError'' ''memory not found''" LocalDummy initial_world]
    by (simp add: sid aid prompt example_run fails) (simp add: example_backend_def)
  from absent failing show ?thesis by simp
qed

end
